theory Spec2Isabelle
  imports Complex_Main "HOL-Library.Word" "HOL-Library.Log_Nat"
begin

section \<open>JavaScript values used by the dashboard\<close>

text \<open>
  A JavaScript number is either \<open>NaN\<close> or a finite value. The seeds, hours and minutes of
  the generators are integers far below \<open>2 ^ 53\<close>, where double arithmetic is exact, so they
  are carried as \<open>int number\<close>; heights and averages are decimals with one fractional digit
  and are carried as \<open>real number\<close>, the decimal standing for the double nearest to it.
  Infinities do not arise: every divisor is a non-zero literal.
\<close>

datatype 'a number = NaN | Num 'a

instantiation number :: (plus) plus
begin

fun plus_number :: "'a number \<Rightarrow> 'a number \<Rightarrow> 'a number" where
  "plus_number (Num a) (Num b) = Num (a + b)"
| "plus_number _ _ = NaN"

instance ..

end

instantiation number :: (minus) minus
begin

fun minus_number :: "'a number \<Rightarrow> 'a number \<Rightarrow> 'a number" where
  "minus_number (Num a) (Num b) = Num (a - b)"
| "minus_number _ _ = NaN"

instance ..

end

instantiation number :: (times) times
begin

fun times_number :: "'a number \<Rightarrow> 'a number \<Rightarrow> 'a number" where
  "times_number (Num a) (Num b) = Num (a * b)"
| "times_number _ _ = NaN"

instance ..

end

text \<open>\<open>a % b\<close>: the remainder takes the sign of the dividend; \<open>a % 0\<close> is \<open>NaN\<close>.\<close>

fun js_rem :: "int number \<Rightarrow> int number \<Rightarrow> int number" where
  "js_rem (Num a) (Num b) = (if b = 0 then NaN else Num (sgn a * (\<bar>a\<bar> mod \<bar>b\<bar>)))"
| "js_rem _ _ = NaN"

text \<open>\<open>a / b\<close> on finite values with a non-zero divisor; the quotient of two integers is a real.\<close>

fun js_div :: "real number \<Rightarrow> real number \<Rightarrow> real number" where
  "js_div (Num a) (Num b) = (if b = 0 then NaN else Num (a / b))"
| "js_div _ _ = NaN"

fun to_real :: "int number \<Rightarrow> real number" where
  "to_real NaN = NaN"
| "to_real (Num a) = Num (of_int a)"

text \<open>\<open>x || 0\<close> on a number: \<open>NaN\<close> and \<open>0\<close> are falsy.\<close>

fun or_zero :: "int number \<Rightarrow> int number" where
  "or_zero NaN = Num 0"
| "or_zero (Num a) = (if a = 0 then Num 0 else Num a)"

text \<open>
  \<open>parseFloat(x.toFixed(1))\<close>: \<open>toFixed(1)\<close> prints the decimal with one fractional digit
  nearest to \<open>x\<close> (of two equally near ones the larger in magnitude), \<open>parseFloat\<close> reads it
  back; \<open>NaN\<close> prints as the text NaN and reads back as \<open>NaN\<close>.
\<close>

definition toFixed1 :: "real \<Rightarrow> real" where
  "toFixed1 x = (if x < 0 then - (of_int (round (- x * 10)) / 10)
                 else of_int (round (x * 10)) / 10)"

fun parseFloat_toFixed1 :: "real number \<Rightarrow> real number" where
  "parseFloat_toFixed1 NaN = NaN"
| "parseFloat_toFixed1 (Num x) = Num (toFixed1 x)"

text \<open>
  Doubles. The entries of the history are sums of a sine, a random draw and two averages,
  rounded to one fractional digit, and there a rounding error of the double arithmetic can
  decide the digit. That arithmetic is the one of IEEE 754 binary64: every operation
  returns the double nearest to its exact result, of two equally near ones the one with
  the even significand. \<open>binade x\<close> is the exponent \<open>e\<close> with
  \<open>2 ^ e \<le> \<bar>x\<bar> < 2 ^ (e + 1)\<close>, and the least exponent of a normal double for smaller
  \<open>x\<close>; \<open>fl x\<close> is the double nearest to \<open>x\<close> (the sums of the history stay far below the
  overflow threshold). \<open>double\<close> turns a number that stands for a double, such as a
  decimal read by \<open>parseFloat\<close> or a literal, into that double.
\<close>

definition binade :: "real \<Rightarrow> int" where
  "binade x = max (- 1022) (bitlen \<lfloor>\<bar>x\<bar> * 2 ^ 1075\<rfloor> - 1076)"

definition round_even :: "real \<Rightarrow> int" where
  "round_even y =
     (let f = \<lfloor>y\<rfloor>; d = y - of_int f
      in if d < 1 / 2 then f else if 1 / 2 < d then f + 1 else if even f then f else f + 1)"

definition fl :: "real \<Rightarrow> real" where
  "fl x = of_int (round_even (x / 2 powi (binade x - 52))) * 2 powi (binade x - 52)"

fun double :: "real number \<Rightarrow> real number" where
  "double NaN = NaN"
| "double (Num x) = Num (fl x)"

definition dbl_add :: "real number \<Rightarrow> real number \<Rightarrow> real number" where
  "dbl_add a b = double (a + b)"

definition dbl_sub :: "real number \<Rightarrow> real number \<Rightarrow> real number" where
  "dbl_sub a b = double (a - b)"

definition dbl_mul :: "real number \<Rightarrow> real number \<Rightarrow> real number" where
  "dbl_mul a b = double (a * b)"

definition dbl_div :: "real number \<Rightarrow> real number \<Rightarrow> real number" where
  "dbl_div a b = double (js_div a b)"

text \<open>
  The \<open>Math\<close> object. \<open>Math.sin\<close> is an implementation-approximated sine, so it is taken
  from the platform, as is \<open>Math.PI\<close>, the double nearest to \<open>\<pi>\<close>;
  \<open>Math_random M i\<close> is the value of the \<open>i\<close>-th call of \<open>Math.random()\<close>, a number in
  \<open>[0, 1)\<close>. What the platform returns is a double. \<open>Math.max\<close> and \<open>Math.sin\<close> return
  \<open>NaN\<close> on \<open>NaN\<close>.
\<close>

record Math =
  Math_PI :: real
  Math_sin :: "real \<Rightarrow> real"
  Math_random :: "nat \<Rightarrow> real"

text \<open>
  A platform with the value of \<open>Math.PI\<close>, a sine that is the double nearest to the exact
  sine, and random draws \<open>rnd\<close>.
\<close>

definition exactMath :: "(nat \<Rightarrow> real) \<Rightarrow> Math" where
  "exactMath rnd =
     \<lparr> Math_PI = 884279719003555 / 281474976710656, Math_sin = sin, Math_random = rnd \<rparr>"

fun Math_max :: "real number \<Rightarrow> real number \<Rightarrow> real number" where
  "Math_max (Num a) (Num b) = Num (max a b)"
| "Math_max _ _ = NaN"

fun sin_of :: "Math \<Rightarrow> real number \<Rightarrow> real number" where
  "sin_of M NaN = NaN"
| "sin_of M (Num x) = Num (fl (Math_sin M x))"

text \<open>
  A JavaScript string is a sequence of UTF-16 code units. \<open>s.charCodeAt(i)\<close> is the code
  unit at index \<open>i\<close>, and \<open>NaN\<close> when \<open>i\<close> is out of range.
\<close>

type_synonym js_string = "16 word list"

definition charCodeAt :: "js_string \<Rightarrow> nat \<Rightarrow> int number" where
  "charCodeAt s i = (if i < length s then Num (uint (s ! i)) else NaN)"

definition js_str :: "string \<Rightarrow> js_string" where
  "js_str s = map (\<lambda>c. of_nat (of_char c)) s"

text \<open>\<open>xs[i]\<close> on an array: \<open>undefined\<close> (here \<open>None\<close>) unless \<open>i\<close> is an index of \<open>xs\<close>.\<close>

fun array_get :: "'a list \<Rightarrow> int number \<Rightarrow> 'a option" where
  "array_get xs NaN = None"
| "array_get xs (Num i) = (if 0 \<le> i \<and> i < int (length xs) then Some (xs ! nat i) else None)"

text \<open>\<open>String(n)\<close> for an integer or \<open>NaN\<close>, and \<open>s.padStart(2, '0')\<close>.\<close>

definition digit :: "nat \<Rightarrow> char" where
  "digit n = char_of (of_char (CHR ''0'') + n)"

fun show_nat :: "nat \<Rightarrow> string" where
  "show_nat n = (if n < 10 then [digit n] else show_nat (n div 10) @ [digit (n mod 10)])"

fun String_of :: "int number \<Rightarrow> string" where
  "String_of NaN = ''NaN''"
| "String_of (Num i) = (if i < 0 then CHR ''-'' # show_nat (nat (- i)) else show_nat (nat i))"

definition padStart2 :: "string \<Rightarrow> string" where
  "padStart2 s = replicate (2 - length s) (CHR ''0'') @ s"

text \<open>
  A \<open>Date\<close> as its getters show it: either the invalid date, whose getters all return
  \<open>NaN\<close>, or the local calendar fields (\<open>getFullYear\<close>, the zero-based \<open>getMonth\<close>,
  \<open>getDate\<close>).
\<close>

datatype Date = InvalidDate | LocalDate int nat nat

fun getFullYear :: "Date \<Rightarrow> int number" where
  "getFullYear InvalidDate = NaN"
| "getFullYear (LocalDate y m d) = Num y"

fun getMonth :: "Date \<Rightarrow> int number" where
  "getMonth InvalidDate = NaN"
| "getMonth (LocalDate y m d) = Num (int m)"

fun getDate :: "Date \<Rightarrow> int number" where
  "getDate InvalidDate = NaN"
| "getDate (LocalDate y m d) = Num (int d)"

fun valid_date :: "Date \<Rightarrow> bool" where
  "valid_date InvalidDate = False"
| "valid_date (LocalDate y m d) = (m < 12 \<and> 1 \<le> d \<and> d \<le> 31)"

section \<open>The seeded tide generator (components/Tides.tsx)\<close>

datatype tide_status = Rising | Falling | High | Low

record TideData =
  city :: js_string
  status :: "tide_status option"
  height :: "real number"
  nextHigh :: string
  nextLow :: string
  monthlyAvgHigh :: "real number"
  monthlyAvgLow :: "real number"
  past24h :: "real number list"

definition tideSeed :: "js_string \<Rightarrow> Date \<Rightarrow> int number" where
  "tideSeed c date =
     getDate date + getMonth date * Num 31 + charCodeAt c 0 + or_zero (charCodeAt c 1)"

definition statusOptions :: "tide_status list" where
  "statusOptions = [Rising, Falling, High, Low]"

text \<open>
  One entry of the 24-hour history: the callback of \<open>Array.from({ length: 24 }, ...)\<close> at
  index \<open>i\<close>, which makes the \<open>i\<close>-th call of \<open>Math.random()\<close>. The averages are the
  doubles \<open>parseFloat\<close> has read, and every operation is one on doubles; \<open>toFixed(1)\<close>
  rounds the exact value of the double it is given.
\<close>

definition past24h_entry ::
  "Math \<Rightarrow> real number \<Rightarrow> real number \<Rightarrow> int number \<Rightarrow> nat \<Rightarrow> real number" where
  "past24h_entry M avgLow avgHigh seed i =
     (let monthlyAvgLow = double avgLow;
          monthlyAvgHigh = double avgHigh;
          PI = double (Num (Math_PI M));
          base = dbl_div (dbl_add monthlyAvgLow monthlyAvgHigh) (Num 2);
          amplitude = dbl_div (dbl_sub monthlyAvgHigh monthlyAvgLow) (Num 2);
          sineWave = sin_of M
            (dbl_sub
               (dbl_mul
                  (dbl_mul (dbl_div (to_real (Num (int i) + js_rem seed (Num 24))) (Num 24))
                     (Num 2))
                  PI)
               (dbl_div PI (Num 2)));
          noise = dbl_mul (dbl_sub (double (Num (Math_random M i))) (Num 0.5))
                    (double (Num 0.2));
          v = dbl_add (dbl_add base (dbl_mul sineWave amplitude)) noise
      in parseFloat_toFixed1 (Math_max (double (Num 0.1)) v))"

definition generateTideDataForDate :: "Math \<Rightarrow> js_string \<Rightarrow> Date \<Rightarrow> TideData" where
  "generateTideDataForDate M c date =
     (let seed = tideSeed c date;
          st = array_get statusOptions (js_rem seed (Num 4));
          h = parseFloat_toFixed1
                (Num 0.8 + js_div (to_real (js_rem (seed * Num 17) (Num 18))) (Num 10));
          nextHighHour = js_rem (seed * Num 7) (Num 12) + Num 12;
          nextHighMin = js_rem (seed * Num 13) (Num 60);
          nh = padStart2 (String_of nextHighHour) @ '':'' @ padStart2 (String_of nextHighMin);
          nextLowHour = js_rem (seed * Num 3) (Num 10) + Num 1;
          nextLowMin = js_rem (seed * Num 19) (Num 60);
          nl = padStart2 (String_of nextLowHour) @ '':'' @ padStart2 (String_of nextLowMin);
          avgHigh = parseFloat_toFixed1
                (Num 2.0 + js_div (to_real (js_rem (seed * Num 5) (Num 8))) (Num 10));
          avgLow = parseFloat_toFixed1
                (Num 0.4 + js_div (to_real (js_rem (seed * Num 3) (Num 5))) (Num 10));
          hist = map (past24h_entry M avgLow avgHigh seed) [0..<24]
      in \<lparr> city = c, status = st, height = h, nextHigh = nh, nextLow = nl,
           monthlyAvgHigh = avgHigh, monthlyAvgLow = avgLow, past24h = hist \<rparr>)"

text \<open>
  A call of the generator as its caller sees it. The body has no \<open>throw\<close>, and none of
  the operations it uses throws on a string and a \<open>Date\<close> (\<open>charCodeAt\<close> and the
  getters return \<open>NaN\<close>, \<open>toFixed(1)\<close> prints \<open>NaN\<close>), so every call completes normally.
\<close>

datatype js_error = InvalidArgument | TypeError | RangeError | SyntaxError

definition call_generateTideDataForDate ::
  "Math \<Rightarrow> js_string \<Rightarrow> Date \<Rightarrow> js_error + TideData" where
  "call_generateTideDataForDate M c date = Inr (generateTideDataForDate M c date)"

section \<open>The water-level base (components/Detector.tsx)\<close>

definition waterSeed :: "js_string \<Rightarrow> Date \<Rightarrow> int number" where
  "waterSeed c date =
     getDate date + getMonth date * Num 31 + getFullYear date
       + charCodeAt c 0 + or_zero (charCodeAt c 1)"

definition generateBaseWaterLevel :: "js_string \<Rightarrow> Date \<Rightarrow> int number" where
  "generateBaseWaterLevel c date = Num 10 + js_rem (waterSeed c date) (Num 81)"

definition call_generateBaseWaterLevel :: "js_string \<Rightarrow> Date \<Rightarrow> js_error + int number" where
  "call_generateBaseWaterLevel c date = Inr (generateBaseWaterLevel c date)"

section \<open>The pan/zoom map (components/IndonesiaMap.tsx)\<close>

text \<open>
  Coordinates, scales and wheel deltas are numbers; none of them is \<open>NaN\<close> here, and they
  are modelled as exact reals. \<open>Transform\<close> is the state \<open>{ scale, x, y }\<close> (the fields
  \<open>x\<close> and \<open>y\<close> are called \<open>tx\<close> and \<open>ty\<close>), \<open>DOMRect\<close> is what
  \<open>getBoundingClientRect()\<close> returns for the \<open>svg\<close> element. Every handler runs on the
  state of the latest render.
\<close>

record Transform =
  scale :: real
  tx :: real
  ty :: real

record DOMRect =
  rect_left :: real
  rect_top :: real
  rect_width :: real
  rect_height :: real

record MapState =
  transform :: Transform
  isPanning :: bool
  startPoint :: "real \<times> real"

definition MIN_SCALE :: real where
  "MIN_SCALE = 1"

definition MAX_SCALE :: real where
  "MAX_SCALE = 5"

definition initialMapState :: MapState where
  "initialMapState =
     \<lparr> transform = \<lparr> scale = 1, tx = 0, ty = 0 \<rparr>, isPanning = False, startPoint = (0, 0) \<rparr>"

definition clamp :: "real \<Rightarrow> real \<Rightarrow> real \<Rightarrow> real" where
  "clamp v lo hi = max lo (min hi v)"

definition handleResetView :: "MapState \<Rightarrow> MapState" where
  "handleResetView st = st\<lparr> transform := \<lparr> scale = 1, tx = 0, ty = 0 \<rparr> \<rparr>"

definition zoomFactor :: "real \<Rightarrow> real" where
  "zoomFactor deltaY = (if deltaY < 0 then 1.1 else 1 / 1.1)"

definition newScale :: "real \<Rightarrow> Transform \<Rightarrow> real" where
  "newScale deltaY t = clamp (scale t * zoomFactor deltaY) MIN_SCALE MAX_SCALE"

text \<open>
  \<open>handleWheel\<close>: \<open>svg\<close> is \<open>svgRef.current\<close> (\<open>None\<close> when the element is not mounted),
  given by its bounding rectangle.
\<close>

definition handleWheel :: "DOMRect option \<Rightarrow> real \<Rightarrow> real \<Rightarrow> real \<Rightarrow> MapState \<Rightarrow> MapState" where
  "handleWheel svg deltaY clientX clientY st =
     (case svg of
        None \<Rightarrow> st
      | Some svgRect \<Rightarrow>
          (let t = transform st;
               ns = newScale deltaY t
           in if ns = scale t then st
              else
                (let mouseX = clientX - rect_left svgRect;
                     mouseY = clientY - rect_top svgRect;
                     svgPointX = (mouseX - tx t) / scale t;
                     svgPointY = (mouseY - ty t) / scale t;
                     newX = mouseX - svgPointX * ns;
                     newY = mouseY - svgPointY * ns;
                     boundXMin = min 0 (rect_width svgRect - 1000 * ns);
                     boundYMin = min 0 (rect_height svgRect - 500 * ns);
                     clampedX = clamp newX boundXMin 0;
                     clampedY = clamp newY boundYMin 0
                 in st\<lparr> transform := \<lparr> scale = ns, tx = clampedX, ty = clampedY \<rparr> \<rparr>)))"

definition handleMouseDown :: "real \<Rightarrow> real \<Rightarrow> MapState \<Rightarrow> MapState" where
  "handleMouseDown clientX clientY st =
     st\<lparr> isPanning := True,
         startPoint := (clientX - tx (transform st), clientY - ty (transform st)) \<rparr>"

definition handleMouseMove :: "DOMRect option \<Rightarrow> real \<Rightarrow> real \<Rightarrow> MapState \<Rightarrow> MapState" where
  "handleMouseMove svg clientX clientY st =
     (if \<not> isPanning st then st
      else
        (case svg of
           None \<Rightarrow> st
         | Some svgRect \<Rightarrow>
             (let t = transform st;
                  newX = clientX - fst (startPoint st);
                  newY = clientY - snd (startPoint st);
                  boundXMin = min 0 (rect_width svgRect - 1000 * scale t);
                  boundYMin = min 0 (rect_height svgRect - 500 * scale t);
                  clampedX = clamp newX boundXMin 0;
                  clampedY = clamp newY boundYMin 0
              in st\<lparr> transform := t\<lparr> tx := clampedX, ty := clampedY \<rparr> \<rparr>)))"

definition handleMouseUpOrLeave :: "MapState \<Rightarrow> MapState" where
  "handleMouseUpOrLeave st = st\<lparr> isPanning := False \<rparr>"

text \<open>The events the \<open>svg\<close> element and the reset button deliver, and a run of them.\<close>

datatype MapEvent =
    Wheel "DOMRect option" real real real
  | MouseDown real real
  | MouseMove "DOMRect option" real real
  | MouseUpOrLeave
  | ResetView

fun handleEvent :: "MapState \<Rightarrow> MapEvent \<Rightarrow> MapState" where
  "handleEvent st (Wheel svg deltaY clientX clientY) = handleWheel svg deltaY clientX clientY st"
| "handleEvent st (MouseDown clientX clientY) = handleMouseDown clientX clientY st"
| "handleEvent st (MouseMove svg clientX clientY) = handleMouseMove svg clientX clientY st"
| "handleEvent st MouseUpOrLeave = handleMouseUpOrLeave st"
| "handleEvent st ResetView = handleResetView st"

definition runEvents :: "MapEvent list \<Rightarrow> MapState \<Rightarrow> MapState" where
  "runEvents es st = foldl handleEvent st es"

text \<open>The events of a run see a viewport of width \<open>w\<close> and height \<open>h\<close>.\<close>

fun viewport_is :: "real \<Rightarrow> real \<Rightarrow> MapEvent \<Rightarrow> bool" where
  "viewport_is w h (Wheel (Some r) deltaY clientX clientY) = (rect_width r = w \<and> rect_height r = h)"
| "viewport_is w h (MouseMove (Some r) clientX clientY) = (rect_width r = w \<and> rect_height r = h)"
| "viewport_is w h _ = True"

text \<open>The bounds of the view transform for a viewport of width \<open>w\<close> and height \<open>h\<close>.\<close>

definition within_bounds :: "real \<Rightarrow> real \<Rightarrow> Transform \<Rightarrow> bool" where
  "within_bounds w h t =
     (1 \<le> scale t \<and> scale t \<le> 5
      \<and> min 0 (w - 1000 * scale t) \<le> tx t \<and> tx t \<le> 0
      \<and> min 0 (h - 500 * scale t) \<le> ty t \<and> ty t \<le> 0)"

text \<open>
  Example inputs: a viewport of 600 by 300 at the origin of the client area, a run that
  zooms in once and drags the map to the left as far as it goes, the viewport after the
  window has been widened to 900, and a view at the largest scale.
\<close>

definition exampleRect :: DOMRect where
  "exampleRect = \<lparr> rect_left = 0, rect_top = 0, rect_width = 600, rect_height = 300 \<rparr>"

definition zoomInThenDragLeft :: "MapEvent list" where
  "zoomInThenDragLeft =
     [Wheel (Some exampleRect) (- 100) 0 0, MouseDown 0 0, MouseMove (Some exampleRect) (- 1000) 0]"

definition resizedViewport :: DOMRect where
  "resizedViewport = \<lparr> rect_left = 0, rect_top = 0, rect_width = 900, rect_height = 300 \<rparr>"

definition zoomedToMax :: MapState where
  "zoomedToMax = \<lparr> transform = \<lparr> scale = 5, tx = - 100, ty = - 50 \<rparr>, isPanning = False,
     startPoint = (0, 0) \<rparr>"

section \<open>Tide alerts (components/Tides.tsx)\<close>

record TideAlert =
  enabled :: bool
  level :: "real number"

type_synonym TideAlertConfig = "js_string \<rightharpoonup> TideAlert"

text \<open>\<open>a >= b\<close> on numbers: false when either side is \<open>NaN\<close>.\<close>

fun js_ge :: "real number \<Rightarrow> real number \<Rightarrow> bool" where
  "js_ge (Num a) (Num b) = (b \<le> a)"
| "js_ge _ _ = False"

text \<open>
  \<open>alertConfig?.enabled && data.height >= alertConfig.level\<close> with
  \<open>alertConfig = alerts[data.city]\<close>: \<open>undefined\<close> (here \<open>None\<close>) when the city has no
  configuration, \<open>false\<close> when it is disabled, the comparison otherwise.
\<close>

definition isAlertTriggered :: "TideAlertConfig \<Rightarrow> TideData \<Rightarrow> bool option" where
  "isAlertTriggered alerts data =
     (case alerts (city data) of
        None \<Rightarrow> None
      | Some alertConfig \<Rightarrow>
          if enabled alertConfig then Some (js_ge (height data) (level alertConfig))
          else Some False)"

text \<open>An example configuration: an alert for Jakarta at 1.0 m, switched on or off.\<close>

definition exampleAlerts :: "bool \<Rightarrow> TideAlertConfig" where
  "exampleAlerts on = [js_str ''Jakarta'' \<mapsto> \<lparr> enabled = on, level = Num 1 \<rparr>]"

text \<open>
  The effect that loads the persisted alerts. \<open>localStorage\<close> is a map from keys to
  texts. \<open>JSON.parse\<close> throws \<open>SyntaxError\<close> on the empty text, which is no JSON text; on
  any other text it is the platform's parser \<open>grammar\<close>, which returns the parsed value or
  throws. \<open>console\<close> collects the messages of \<open>console.error\<close>.
\<close>

record TidesState =
  alerts :: TideAlertConfig
  console :: "string list"

definition initialTidesState :: TidesState where
  "initialTidesState = \<lparr> alerts = Map.empty, console = [] \<rparr>"

definition JSON_parse ::
  "(string \<Rightarrow> js_error + TideAlertConfig) \<Rightarrow> string \<Rightarrow> js_error + TideAlertConfig" where
  "JSON_parse grammar s = (if s = [] then Inl SyntaxError else grammar s)"

definition loadAlerts_try ::
  "(string \<Rightarrow> js_error + TideAlertConfig) \<Rightarrow> (string \<rightharpoonup> string) \<Rightarrow> TidesState
     \<Rightarrow> js_error + TidesState" where
  "loadAlerts_try grammar localStorage st =
     (case localStorage ''tideAlerts'' of
        None \<Rightarrow> Inr st
      | Some storedAlerts \<Rightarrow>
          if storedAlerts = [] then Inr st
          else (case JSON_parse grammar storedAlerts of
                  Inl e \<Rightarrow> Inl e
                | Inr v \<Rightarrow> Inr (st\<lparr> alerts := v \<rparr>)))"

definition loadAlerts ::
  "(string \<Rightarrow> js_error + TideAlertConfig) \<Rightarrow> (string \<rightharpoonup> string) \<Rightarrow> TidesState
     \<Rightarrow> js_error + TidesState" where
  "loadAlerts grammar localStorage st =
     (case loadAlerts_try grammar localStorage st of
        Inl e \<Rightarrow>
          Inr (st\<lparr> console := console st @ [''Failed to parse tide alerts from localStorage''] \<rparr>)
      | Inr st' \<Rightarrow> Inr st')"

text \<open>
  An example parser for non-empty texts: it accepts the text of the empty object and
  rejects every other text.
\<close>

definition onlyEmptyObject :: "string \<Rightarrow> js_error + TideAlertConfig" where
  "onlyEmptyObject s = (if s = ''{}'' then Inr Map.empty else Inl SyntaxError)"

section \<open>The offline cache worker (service-worker.js)\<close>

text \<open>
  The worker intercepts every request of the pages it controls, whatever its method: the
  assets are fetched with \<open>GET\<close>, the news feed posts to the generative service.
\<close>

datatype http_method = GET | HEAD | POST | PUT | DELETE | OPTIONS | PATCH

record Request =
  req_method :: http_method
  req_url :: string

text \<open>
  A response has a type, a status and headers. \<open>resp_inner_status\<close> is the status the
  server sent; the status a script reads, \<open>resp_status\<close>, is 0 for the filtered types
  (opaque, opaque redirect) and for a network error. Of the headers only \<open>Vary: *\<close>
  matters here.
\<close>

datatype response_type = basic | cors | default_type | error_type | opaque | opaqueredirect

record Response =
  resp_type :: response_type
  resp_inner_status :: nat
  resp_vary_star :: bool
  resp_body :: string

definition resp_status :: "Response \<Rightarrow> nat" where
  "resp_status r =
     (if resp_type r = opaque \<or> resp_type r = opaqueredirect \<or> resp_type r = error_type then 0
      else resp_inner_status r)"

text \<open>
  A cache maps the URLs of \<open>GET\<close> requests to responses; the cache storage is the list of
  the named caches in the order of their creation, which is the order in which
  \<open>caches.match\<close> searches them. A request whose method is not \<open>GET\<close> matches nothing.
\<close>

type_synonym Cache = "string \<rightharpoonup> Response"

type_synonym CacheStorage = "(string \<times> Cache) list"

definition CACHE_NAME :: string where
  "CACHE_NAME = ''aqua-sentinel-cache-v1''"

fun caches_lookup :: "CacheStorage \<Rightarrow> string \<Rightarrow> Response option" where
  "caches_lookup [] url = None"
| "caches_lookup ((name, cache) # rest) url =
     (case cache url of Some r \<Rightarrow> Some r | None \<Rightarrow> caches_lookup rest url)"

definition caches_match :: "CacheStorage \<Rightarrow> Request \<Rightarrow> Response option" where
  "caches_match caches request =
     (if req_method request = GET then caches_lookup caches (req_url request) else None)"

text \<open>\<open>caches.open(name)\<close> creates the cache if there is none of that name.\<close>

fun caches_open :: "string \<Rightarrow> CacheStorage \<Rightarrow> CacheStorage" where
  "caches_open name [] = [(name, Map.empty)]"
| "caches_open name ((n, cache) # rest) =
     (if n = name then (n, cache) # rest else (n, cache) # caches_open name rest)"

text \<open>
  \<open>cache.put(request, response)\<close> stores the response under the URL of the request. It
  rejects, and stores nothing, when the URL is not an http(s) URL, the method is not
  \<open>GET\<close>, the response is a partial one (status 206, also behind an opaque filter) or has
  the header \<open>Vary: *\<close>. The worker does not wait for the put and does not handle its
  rejection, so a put that fails leaves the answer as it is. \<open>open_and_put\<close> is
  \<open>caches.open(name).then(cache => { cache.put(request, response) })\<close>.
\<close>

definition http_scheme :: "string \<Rightarrow> bool" where
  "http_scheme url = (take 7 url = ''http://'' \<or> take 8 url = ''https://'')"

definition put_accepted :: "Request \<Rightarrow> Response \<Rightarrow> bool" where
  "put_accepted request r =
     (http_scheme (req_url request) \<and> req_method request = GET
      \<and> resp_inner_status r \<noteq> 206 \<and> \<not> resp_vary_star r)"

fun cache_store :: "string \<Rightarrow> string \<Rightarrow> Response \<Rightarrow> CacheStorage \<Rightarrow> CacheStorage" where
  "cache_store name url r [] = []"
| "cache_store name url r ((n, cache) # rest) =
     (if n = name then (n, cache(url \<mapsto> r)) # rest else (n, cache) # cache_store name url r rest)"

definition open_and_put :: "string \<Rightarrow> Request \<Rightarrow> Response \<Rightarrow> CacheStorage \<Rightarrow> CacheStorage" where
  "open_and_put name request r caches =
     (if put_accepted request r then cache_store name (req_url request) r (caches_open name caches)
      else caches_open name caches)"

text \<open>The response a named cache holds for a URL.\<close>

fun cache_entry :: "CacheStorage \<Rightarrow> string \<Rightarrow> string \<Rightarrow> Response option" where
  "cache_entry [] name url = None"
| "cache_entry ((n, cache) # rest) name url =
     (if n = name then cache url else cache_entry rest name url)"

text \<open>
  What \<open>fetch(request)\<close> does: the promise rejects, or it resolves with a value (a
  response; \<open>None\<close> stands for a falsy value, which the handler checks for).
\<close>

datatype fetch_outcome = Rejected | Resolved "Response option"

datatype worker_effect =
    NetworkFetch Request
  | CachePut string Request Response
  | ConsoleError

record FetchResult =
  respondWith :: "Response option"
  caches_after :: CacheStorage
  effects :: "worker_effect list"

text \<open>
  The fetch handler. It runs in several steps, between which other tasks run (other fetch
  events, puts that are still under way): \<open>caches\<close> is the cache storage at the first
  \<open>caches.match\<close>, \<open>later\<close> the cache storage when the network fetch has settled, which
  is the one the second \<open>caches.match\<close> of the \<open>catch\<close> branch searches and the one the
  put goes to.
\<close>

definition onFetch ::
  "(Request \<Rightarrow> fetch_outcome) \<Rightarrow> CacheStorage \<Rightarrow> CacheStorage \<Rightarrow> Request \<Rightarrow> FetchResult" where
  "onFetch network caches later request =
     (case caches_match caches request of
        Some cachedResponse \<Rightarrow>
          \<lparr> respondWith = Some cachedResponse, caches_after = caches, effects = [] \<rparr>
      | None \<Rightarrow>
          (case network request of
             Resolved networkResponse \<Rightarrow>
               (case networkResponse of
                  None \<Rightarrow>
                    \<lparr> respondWith = None, caches_after = later,
                      effects = [NetworkFetch request] \<rparr>
                | Some r \<Rightarrow>
                    if resp_status r \<noteq> 200 \<and> resp_type r \<noteq> opaque
                    then \<lparr> respondWith = Some r, caches_after = later,
                           effects = [NetworkFetch request] \<rparr>
                    else \<lparr> respondWith = Some r,
                           caches_after = open_and_put CACHE_NAME request r later,
                           effects = [NetworkFetch request, CachePut CACHE_NAME request r] \<rparr>)
           | Rejected \<Rightarrow>
               \<lparr> respondWith = caches_match later request, caches_after = later,
                 effects = [NetworkFetch request, ConsoleError] \<rparr>))"

text \<open>
  Example inputs: a cache storage holding the start page and a later one that holds a
  second file too, the request and the response of the news feed, a network that serves
  these and answers 404 for the rest, and a network that is unreachable.
\<close>

definition okResponse :: Response where
  "okResponse = \<lparr> resp_type = basic, resp_inner_status = 200, resp_vary_star = False,
     resp_body = ''<html>'' \<rparr>"

definition notFoundResponse :: Response where
  "notFoundResponse = \<lparr> resp_type = basic, resp_inner_status = 404, resp_vary_star = False,
     resp_body = '''' \<rparr>"

definition newsResponse :: Response where
  "newsResponse = \<lparr> resp_type = cors, resp_inner_status = 200, resp_vary_star = False,
     resp_body = ''[]'' \<rparr>"

definition getRequest :: "string \<Rightarrow> Request" where
  "getRequest url = \<lparr> req_method = GET, req_url = url \<rparr>"

definition newsRequest :: Request where
  "newsRequest = \<lparr> req_method = POST,
     req_url = ''https://generativelanguage.googleapis.com/v1beta/models'' \<rparr>"

definition exampleCaches :: CacheStorage where
  "exampleCaches = [(CACHE_NAME, [''https://aqua.example/index.html'' \<mapsto> okResponse])]"

definition cachesWithApp :: CacheStorage where
  "cachesWithApp = [(CACHE_NAME, [''https://aqua.example/index.html'' \<mapsto> okResponse,
     ''https://aqua.example/App.tsx'' \<mapsto> okResponse])]"

definition offline :: "Request \<Rightarrow> fetch_outcome" where
  "offline request = Rejected"

definition exampleNetwork :: "Request \<Rightarrow> fetch_outcome" where
  "exampleNetwork request =
     (if req_url request = ''https://aqua.example/App.tsx'' then Resolved (Some okResponse)
      else if request = newsRequest then Resolved (Some newsResponse)
      else Resolved (Some notFoundResponse))"


section \<open>Properties of the tide generator\<close>

lemma toFixed1_tenth: "toFixed1 (of_int n / 10) = of_int n / 10"
proof (cases "n < 0")
  case True
  have "round (- real_of_int n) = - n"
    by (simp flip: of_int_minus)
  then show ?thesis using True by (simp add: toFixed1_def)
next
  case False
  then show ?thesis by (simp add: toFixed1_def)
qed

lemma tideSeed_cons2:
  "tideSeed (c0 # c1 # cs) (LocalDate y m d) = Num (int d + int m * 31 + uint c0 + uint c1)"
  by (simp add: tideSeed_def charCodeAt_def)

lemma tideSeed_single:
  "tideSeed [c0] (LocalDate y m d) = Num (int d + int m * 31 + uint c0 + 0)"
  by (simp add: tideSeed_def charCodeAt_def)

lemma tideSeed_nonneg:
  assumes "c \<noteq> []" "valid_date date"
  shows "\<exists>s. 0 \<le> s \<and> tideSeed c date = Num s"
proof -
  obtain y m d where d: "date = LocalDate y m d"
    using assms(2) by (cases date) auto
  obtain c0 cs where c: "c = c0 # cs"
    using assms(1) by (cases c) auto
  show ?thesis
  proof (cases cs)
    case Nil
    then show ?thesis using c d by (simp add: tideSeed_single)
  next
    case (Cons c1 cs')
    then show ?thesis using c d by (simp add: tideSeed_cons2)
  qed
qed

lemma height_of_seed:
  "height (generateTideDataForDate M c date) =
     parseFloat_toFixed1
       (Num 0.8 + js_div (to_real (js_rem (tideSeed c date * Num 17) (Num 18))) (Num 10))"
  by (simp add: generateTideDataForDate_def Let_def)

lemma status_of_seed:
  "status (generateTideDataForDate M c date) =
     array_get statusOptions (js_rem (tideSeed c date) (Num 4))"
  by (simp add: generateTideDataForDate_def Let_def)

lemma js_rem_nonneg:
  assumes "0 \<le> a" and "0 < b"
  shows "js_rem (Num a) (Num b) = Num (a mod b)"
proof (cases "a = 0")
  case True
  then show ?thesis using assms by simp
next
  case False
  then have "sgn a = 1" using assms by simp
  then show ?thesis using assms by simp
qed

lemma height_value:
  assumes "0 \<le> s"
  shows "parseFloat_toFixed1
       (Num 0.8 + js_div (to_real (js_rem (Num s * Num 17) (Num 18))) (Num 10))
     = Num (of_int (8 + (s * 17) mod 18) / 10)"
proof -
  have r: "js_rem (Num (s * 17)) (Num 18) = Num ((s * 17) mod 18)"
    using assms by (intro js_rem_nonneg) simp_all
  have "(0.8::real) + of_int ((s * 17) mod 18) / 10 = of_int (8 + (s * 17) mod 18) / 10"
    by simp
  then have "toFixed1 ((0.8::real) + of_int ((s * 17) mod 18) / 10)
      = of_int (8 + (s * 17) mod 18) / 10"
    by (simp only: toFixed1_tenth)
  then show ?thesis
    by (simp add: r del: js_rem.simps)
qed

lemma status_value:
  assumes "0 \<le> s"
  shows "array_get statusOptions (js_rem (Num s) (Num 4)) = Some (statusOptions ! nat (s mod 4))"
  using assms by (simp add: js_rem_nonneg statusOptions_def del: js_rem.simps)

text \<open>
  C1: for every location string with at least one character and every valid date,
  \<open>generateTideDataForDate\<close> returns a record whose status is one of Rising, Falling,
  High and Low and whose height lies in the closed interval from 0.8 to 2.5.
\<close>

theorem generate_status_and_height_in_range:
  assumes "c \<noteq> []" and "valid_date date"
  shows "status (generateTideDataForDate M c date)
           \<in> {Some Rising, Some Falling, Some High, Some Low}
         \<and> (\<exists>h. height (generateTideDataForDate M c date) = Num h \<and> 0.8 \<le> h \<and> h \<le> 2.5)"
proof -
  obtain s where s: "0 \<le> s" "tideSeed c date = Num s"
    using tideSeed_nonneg [OF assms] by blast
  have "nat (s mod 4) < 4"
    by simp
  then have "nat (s mod 4) \<in> {0, 1, 2, 3}"
    by auto
  then have st: "statusOptions ! nat (s mod 4) \<in> {Rising, Falling, High, Low}"
    by (auto simp: statusOptions_def)
  have k: "0 \<le> (s * 17) mod 18" "(s * 17) mod 18 < 18"
    by simp_all
  have h: "height (generateTideDataForDate M c date) = Num (of_int (8 + (s * 17) mod 18) / 10)"
    by (simp only: height_of_seed s height_value [OF s(1)])
  have "(0.8::real) \<le> of_int (8 + (s * 17) mod 18) / 10"
    using k by simp
  moreover have "real_of_int (8 + (s * 17) mod 18) / 10 \<le> 2.5"
    using k by simp
  ultimately have "\<exists>h. height (generateTideDataForDate M c date) = Num h \<and> 0.8 \<le> h \<and> h \<le> 2.5"
    using h by blast
  moreover have "status (generateTideDataForDate M c date) = Some (statusOptions ! nat (s mod 4))"
    by (simp only: status_of_seed s status_value [OF s(1)])
  ultimately show ?thesis
    using st by auto
qed

theorem generate_status_and_height_in_range_witness:
  "js_str ''Jakarta'' \<noteq> [] \<and> valid_date (LocalDate 2026 10 3)
   \<and> status (generateTideDataForDate (exactMath (\<lambda>i. 0)) (js_str ''Jakarta'') (LocalDate 2026 10 3))
       \<in> {Some Rising, Some Falling, Some High, Some Low}
   \<and> (\<exists>h. height (generateTideDataForDate (exactMath (\<lambda>i. 0)) (js_str ''Jakarta'')
               (LocalDate 2026 10 3)) = Num h \<and> 0.8 \<le> h \<and> h \<le> 2.5)"
proof -
  have c: "js_str ''Jakarta'' \<noteq> []"
    by (simp add: js_str_def)
  have d: "valid_date (LocalDate 2026 10 3)"
    by simp
  show ?thesis
    using c d generate_status_and_height_in_range [OF c d, of "exactMath (\<lambda>i. 0)"] by blast
qed

text \<open>
  C2: two calls of \<open>generateTideDataForDate\<close> with the same location and date return the
  same status, height, nextHigh, nextLow, monthlyAvgHigh and monthlyAvgLow (and city),
  whatever \<open>Math.random()\<close> returns during either call; only the history may differ.
\<close>

theorem generate_fields_independent_of_random:
  "city (generateTideDataForDate M1 c date) = city (generateTideDataForDate M2 c date)
   \<and> status (generateTideDataForDate M1 c date) = status (generateTideDataForDate M2 c date)
   \<and> height (generateTideDataForDate M1 c date) = height (generateTideDataForDate M2 c date)
   \<and> nextHigh (generateTideDataForDate M1 c date) = nextHigh (generateTideDataForDate M2 c date)
   \<and> nextLow (generateTideDataForDate M1 c date) = nextLow (generateTideDataForDate M2 c date)
   \<and> monthlyAvgHigh (generateTideDataForDate M1 c date)
       = monthlyAvgHigh (generateTideDataForDate M2 c date)
   \<and> monthlyAvgLow (generateTideDataForDate M1 c date)
       = monthlyAvgLow (generateTideDataForDate M2 c date)"
  by (simp add: generateTideDataForDate_def Let_def)

section \<open>Doubles and the history\<close>

text \<open>
  \<open>binade\<close> finds the exponent of a number that is not subnormal, which gives \<open>fl\<close> as
  one rounding of the significand to an integer; the doubles the examples below meet
  follow from it.
\<close>

lemma bitlen_eqI:
  assumes "2 ^ n \<le> m" and "m < 2 ^ Suc n"
  shows "bitlen m = int n + 1"
proof -
  have "(0::int) < 2 ^ n"
    by simp
  then have m: "0 < m"
    using assms(1) by linarith
  have lo: "(2::nat) ^ n \<le> nat m"
    using assms(1) m by (simp add: le_nat_iff)
  have hi: "nat m < 2 ^ Suc n"
    using assms(2) m by (simp add: nat_less_iff)
  have "floorlog 2 (nat m) \<le> Suc n"
    using hi by (intro floorlog_leI) simp_all
  moreover have "Suc n \<le> floorlog 2 (nat m)"
    using lo by (intro floorlog_ge_SucI) simp_all
  ultimately show ?thesis
    by (simp add: bitlen_def)
qed

lemma binade_eqI:
  assumes "2 powi e \<le> \<bar>x\<bar>" and "\<bar>x\<bar> < 2 powi (e + 1)" and "- 1022 \<le> e"
  shows "binade x = e"
proof -
  define n where "n = nat (e + 1075)"
  define k :: real where "k = 2 ^ 1075"
  have n: "e + 1075 = int n"
    using assms(3) by (simp add: n_def)
  have k: "k = 2 powi 1075" "0 < k"
    by (simp_all add: k_def)
  have "(2::real) powi (e + 1075) = 2 powi e * k"
    unfolding k by (rule power_int_add) simp
  then have p: "(2::real) powi e * k = 2 ^ n"
    unfolding n by simp
  have "(2::real) powi (e + 1 + 1075) = 2 powi (e + 1) * k"
    unfolding k by (rule power_int_add) simp
  moreover have "e + 1 + 1075 = int (Suc n)"
    using n by simp
  ultimately have q: "(2::real) powi (e + 1) * k = 2 ^ Suc n"
    by (simp only: power_int_of_nat)
  have "2 ^ n \<le> \<bar>x\<bar> * k"
    using assms(1) k(2) p [symmetric] by simp
  then have lo: "2 ^ n \<le> \<lfloor>\<bar>x\<bar> * k\<rfloor>"
    by (simp add: le_floor_iff)
  have "\<bar>x\<bar> * k < 2 ^ Suc n"
    using assms(2) k(2) q [symmetric] by simp
  then have hi: "\<lfloor>\<bar>x\<bar> * k\<rfloor> < 2 ^ Suc n"
    by (simp add: floor_less_iff)
  have "bitlen \<lfloor>\<bar>x\<bar> * k\<rfloor> = int n + 1"
    using lo hi by (rule bitlen_eqI)
  then have "bitlen \<lfloor>\<bar>x\<bar> * k\<rfloor> - 1076 = e"
    using n by simp
  then show ?thesis
    using assms(3) unfolding binade_def k_def by (simp only: max_def) simp
qed

lemma fl_eqI:
  assumes "2 powi e \<le> \<bar>x\<bar>" and "\<bar>x\<bar> < 2 powi (e + 1)" and "- 1022 \<le> e"
    and "round_even (x / 2 powi (e - 52)) = n"
  shows "fl x = of_int n * 2 powi (e - 52)"
  using assms(4) by (simp only: fl_def binade_eqI [OF assms(1-3)])

lemma fl_zero: "fl 0 = 0"
  by (simp add: fl_def round_even_def)


lemma fl_half: "fl (1 / 2) = 1 / 2"
  by (rule fl_eqI [where e = "- 1" and n = "2 ^ 52", THEN trans])
    (simp_all add: round_even_def power_int_minus)

lemma fl_two: "fl 2 = 2"
  by (rule fl_eqI [where e = 1 and n = "2 ^ 52", THEN trans])
    (simp_all add: round_even_def power_int_minus)

lemma fl_PI: "fl (884279719003555 / 281474976710656) = 884279719003555 / 281474976710656"
  by (rule fl_eqI [where e = 1 and n = 7074237752028440, THEN trans])
    (simp_all add: round_even_def power_int_minus)

lemma fl_fifth: "fl (1 / 5) = 3602879701896397 / 18014398509481984"
  by (rule fl_eqI [where e = "- 3" and n = 7205759403792794, THEN trans])
    (simp_all add: round_even_def power_int_minus)

lemma fl_tenth: "fl (1 / 10) = 3602879701896397 / 36028797018963968"
  by (rule fl_eqI [where e = "- 4" and n = 7205759403792794, THEN trans])
    (simp_all add: round_even_def power_int_minus)

lemma fl_5_2: "fl (5 / 2) = 5 / 2"
  by (rule fl_eqI [where e = 1 and n = 5629499534213120, THEN trans])
    (simp_all add: round_even_def power_int_minus)

lemma fl_5_4: "fl (5 / 4) = 5 / 4"
  by (rule fl_eqI [where e = 0 and n = 5629499534213120, THEN trans])
    (simp_all add: round_even_def power_int_minus)

lemma fl_3_2: "fl (3 / 2) = 3 / 2"
  by (rule fl_eqI [where e = 0 and n = 6755399441055744, THEN trans])
    (simp_all add: round_even_def power_int_minus)

lemma fl_3_4: "fl (3 / 4) = 3 / 4"
  by (rule fl_eqI [where e = "- 1" and n = 6755399441055744, THEN trans])
    (simp_all add: round_even_def power_int_minus)

lemma fl_quarter: "fl (1 / 4) = 1 / 4"
  by (rule fl_eqI [where e = "- 2" and n = "2 ^ 52", THEN trans])
    (simp_all add: round_even_def power_int_minus)

lemma fl_half_PI: "fl (884279719003555 / 562949953421312) = 884279719003555 / 562949953421312"
  by (rule fl_eqI [where e = 0 and n = 7074237752028440, THEN trans])
    (simp_all add: round_even_def power_int_minus)

lemma fl_neg_half: "fl (- (1 / 2)) = - (1 / 2)"
  by (rule fl_eqI [where e = "- 1" and n = "- (2 ^ 52)", THEN trans])
    (simp_all add: round_even_def power_int_minus)

lemma fl_neg_tenth:
  "fl (- (3602879701896397 / 36028797018963968)) = - (3602879701896397 / 36028797018963968)"
  by (rule fl_eqI [where e = "- 4" and n = "- 7205759403792794", THEN trans])
    (simp_all add: round_even_def power_int_minus)

lemma fl_tie_sum:
  "fl (41433116571808563 / 36028797018963968) = 2589569785738035 / 2251799813685248"
  by (rule fl_eqI [where e = 0 and n = 5179139571476070, THEN trans])
    (simp_all add: round_even_def power_int_minus)

text \<open>
  The history does depend on the random draws, and on the rounding of the doubles. For
  Jakarta on 21 January the sine of entry 6 is 0, so the entry is the sum of the base 1.25
  and the noise. With the random draw 0 the noise is the double nearest to -0.1 and the sum
  the double just below 1.15, which \<open>toFixed(1)\<close> prints as 1.1; with the draw 0.5 the
  noise is 0 and the entry 1.3.
\<close>

lemma history_entry_random_0:
  "past24h (generateTideDataForDate (exactMath (\<lambda>i. 0)) (js_str ''Jakarta'')
      (LocalDate 2026 0 21)) ! 6 = Num (11 / 10)"
proof -
  have s: "tideSeed (js_str ''Jakarta'') (LocalDate 2026 0 21) = Num 192"
    by (simp add: tideSeed_def js_str_def charCodeAt_def)
  show ?thesis
    by (simp add: generateTideDataForDate_def s Let_def past24h_entry_def exactMath_def
        toFixed1_def round_def nth_map dbl_add_def dbl_sub_def dbl_mul_def dbl_div_def
        fl_half fl_two fl_PI fl_fifth fl_tenth fl_zero fl_5_2 fl_5_4 fl_3_2 fl_3_4 fl_quarter
        fl_half_PI fl_neg_half fl_neg_tenth fl_tie_sum del: upt_Suc)
qed

lemma history_entry_random_half:
  "past24h (generateTideDataForDate (exactMath (\<lambda>i. 1 / 2)) (js_str ''Jakarta'')
      (LocalDate 2026 0 21)) ! 6 = Num (13 / 10)"
proof -
  have s: "tideSeed (js_str ''Jakarta'') (LocalDate 2026 0 21) = Num 192"
    by (simp add: tideSeed_def js_str_def charCodeAt_def)
  show ?thesis
    by (simp add: generateTideDataForDate_def s Let_def past24h_entry_def exactMath_def
        toFixed1_def round_def nth_map dbl_add_def dbl_sub_def dbl_mul_def dbl_div_def
        fl_half fl_two fl_PI fl_fifth fl_tenth fl_zero fl_5_2 fl_5_4 fl_3_2 fl_3_4 fl_quarter
        fl_half_PI del: upt_Suc)
qed

lemma past24h_depends_on_random:
  "past24h (generateTideDataForDate (exactMath (\<lambda>i. 0)) (js_str ''Jakarta'') (LocalDate 2026 0 21))
     \<noteq> past24h (generateTideDataForDate (exactMath (\<lambda>i. 1 / 2)) (js_str ''Jakarta'')
           (LocalDate 2026 0 21))"
proof -
  have "(Num (11 / 10) :: real number) \<noteq> Num (13 / 10)"
    by simp
  then show ?thesis
    using history_entry_random_0 history_entry_random_half by auto
qed

section \<open>The seed\<close>

lemma waterSeed_cons2:
  "waterSeed (c0 # c1 # cs) (LocalDate y m d)
     = Num (int d + int m * 31 + y + uint c0 + uint c1)"
  by (simp add: waterSeed_def charCodeAt_def)

lemma waterSeed_single:
  "waterSeed [c0] (LocalDate y m d) = Num (int d + int m * 31 + y + uint c0 + 0)"
  by (simp add: waterSeed_def charCodeAt_def)

text \<open>
  C6: the seed is day of month + month (as \<open>getMonth\<close> counts it) * 31 + the code of the
  first character + the code of the second character, the water-level seed adds the full
  year; for a location of length 1 the missing second code counts as 0.
\<close>

theorem seed_formula:
  "tideSeed (c0 # c1 # cs) (LocalDate y m d) = Num (int d + int m * 31 + uint c0 + uint c1)
   \<and> tideSeed [c0] (LocalDate y m d) = Num (int d + int m * 31 + uint c0 + 0)
   \<and> waterSeed (c0 # c1 # cs) (LocalDate y m d)
       = Num (int d + int m * 31 + y + uint c0 + uint c1)
   \<and> waterSeed [c0] (LocalDate y m d) = Num (int d + int m * 31 + y + uint c0 + 0)
   \<and> generateBaseWaterLevel c date = Num 10 + js_rem (waterSeed c date) (Num 81)
   \<and> status (generateTideDataForDate M c date)
       = array_get statusOptions (js_rem (tideSeed c date) (Num 4))"
  by (simp only: tideSeed_cons2 tideSeed_single waterSeed_cons2 waterSeed_single
      generateBaseWaterLevel_def status_of_seed simp_thms)

theorem seed_formula_witness:
  "tideSeed (js_str ''Jakarta'') (LocalDate 2026 10 3) = Num (3 + 10 * 31 + 74 + 97)
   \<and> tideSeed (js_str ''J'') (LocalDate 2026 10 3) = Num (3 + 10 * 31 + 74 + 0)
   \<and> waterSeed (js_str ''Jakarta'') (LocalDate 2026 10 3) = Num (3 + 10 * 31 + 2026 + 74 + 97)
   \<and> waterSeed (js_str ''J'') (LocalDate 2026 10 3) = Num (3 + 10 * 31 + 2026 + 74 + 0)"
  using seed_formula [of 74 97 "js_str ''karta''" 2026 10 3]
  by (simp add: js_str_def)

section \<open>Inputs out of range\<close>

lemma past24h_entry_NaN: "past24h_entry M NaN NaN NaN i = NaN"
  by (simp add: past24h_entry_def dbl_add_def dbl_sub_def dbl_mul_def dbl_div_def)

lemma tideSeed_empty: "tideSeed [] date = NaN"
  by (cases date) (simp_all add: tideSeed_def charCodeAt_def)

lemma tideSeed_invalid: "tideSeed c InvalidDate = NaN"
  by (simp add: tideSeed_def)

lemma map_const_upt: "map (\<lambda>i. a) [0..<n] = replicate n a"
  by (induction n) (simp_all add: replicate_append_same)

lemma generate_NaN_seed:
  assumes "tideSeed c date = NaN"
  shows "generateTideDataForDate M c date =
       \<lparr> city = c, status = None, height = NaN, nextHigh = ''NaN:NaN'',
         nextLow = ''NaN:NaN'', monthlyAvgHigh = NaN, monthlyAvgLow = NaN,
         past24h = replicate 24 NaN \<rparr>"
proof -
  have "map (past24h_entry M NaN NaN NaN) [0..<24] = replicate 24 NaN"
    using map_const_upt [of NaN 24] by (simp only: past24h_entry_NaN [abs_def])
  then show ?thesis
    by (simp add: generateTideDataForDate_def assms padStart2_def Let_def
        del: upt_Suc replicate_Suc)
qed

text \<open>
  C8, as the code has it: the generators never throw and signal nothing. For the empty
  location (and for the invalid date) the tide generator returns a record whose status is
  undefined, whose numbers are all \<open>NaN\<close> and whose times read NaN:NaN, and the
  water-level base is \<open>NaN\<close>.
\<close>

theorem generate_out_of_range_returns_NaN_record:
  "call_generateTideDataForDate M [] date = Inr
       \<lparr> city = [], status = None, height = NaN, nextHigh = ''NaN:NaN'',
         nextLow = ''NaN:NaN'', monthlyAvgHigh = NaN, monthlyAvgLow = NaN,
         past24h = replicate 24 NaN \<rparr>
   \<and> call_generateTideDataForDate M c InvalidDate = Inr
       \<lparr> city = c, status = None, height = NaN, nextHigh = ''NaN:NaN'',
         nextLow = ''NaN:NaN'', monthlyAvgHigh = NaN, monthlyAvgLow = NaN,
         past24h = replicate 24 NaN \<rparr>
   \<and> call_generateBaseWaterLevel [] date = Inr NaN
   \<and> call_generateBaseWaterLevel c InvalidDate = Inr NaN
   \<and> (\<exists>r. call_generateTideDataForDate M c date = Inr r)
   \<and> (\<exists>r. call_generateBaseWaterLevel c date = Inr r)"
proof -
  have "waterSeed [] date = NaN"
    by (cases date) (simp_all add: waterSeed_def charCodeAt_def)
  moreover have "waterSeed c InvalidDate = NaN"
    by (simp add: waterSeed_def)
  ultimately show ?thesis
    by (simp add: call_generateTideDataForDate_def call_generateBaseWaterLevel_def
        generateBaseWaterLevel_def generate_NaN_seed tideSeed_empty tideSeed_invalid)
qed

theorem generate_empty_location_counterexample:
  "call_generateTideDataForDate (exactMath (\<lambda>i. 0)) [] (LocalDate 2026 10 3)
     \<noteq> Inl InvalidArgument
   \<and> call_generateBaseWaterLevel [] (LocalDate 2026 10 3) \<noteq> Inl InvalidArgument"
  by (simp add: call_generateTideDataForDate_def call_generateBaseWaterLevel_def)

section \<open>Properties of the pan/zoom map\<close>

lemma clamp_bounds:
  assumes "lo \<le> hi"
  shows "lo \<le> clamp v lo hi" and "clamp v lo hi \<le> hi"
  using assms by (simp_all add: clamp_def)


lemma newScale_range: "1 \<le> newScale deltaY t" "newScale deltaY t \<le> 5"
  by (simp_all add: newScale_def clamp_def MIN_SCALE_def MAX_SCALE_def)

lemma transform_handleWheel:
  assumes "newScale deltaY (transform st) \<noteq> scale (transform st)"
  shows "transform (handleWheel (Some r) deltaY clientX clientY st) =
     \<lparr> scale = newScale deltaY (transform st),
       tx = clamp ((clientX - rect_left r)
                   - ((clientX - rect_left r - tx (transform st)) / scale (transform st))
                     * newScale deltaY (transform st))
              (min 0 (rect_width r - 1000 * newScale deltaY (transform st))) 0,
       ty = clamp ((clientY - rect_top r)
                   - ((clientY - rect_top r - ty (transform st)) / scale (transform st))
                     * newScale deltaY (transform st))
              (min 0 (rect_height r - 500 * newScale deltaY (transform st))) 0 \<rparr>"
  using assms by (simp add: handleWheel_def Let_def)

lemma handleWheel_unchanged:
  assumes "newScale deltaY (transform st) = scale (transform st)"
  shows "handleWheel svg deltaY clientX clientY st = st"
  using assms by (simp add: handleWheel_def Let_def split: option.splits)

lemma handleWheel_bounds:
  assumes "within_bounds w h (transform st)"
    and "viewport_is w h (Wheel svg deltaY clientX clientY)"
  shows "within_bounds w h (transform (handleWheel svg deltaY clientX clientY st))"
proof (cases svg)
  case None
  then show ?thesis using assms(1) by (simp add: handleWheel_def)
next
  case (Some r)
  show ?thesis
  proof (cases "newScale deltaY (transform st) = scale (transform st)")
    case True
    then show ?thesis using assms(1) by (simp add: handleWheel_unchanged)
  next
    case False
    have wh: "rect_width r = w" "rect_height r = h"
      using assms(2) Some by simp_all
    show ?thesis
      unfolding Some transform_handleWheel [OF False] within_bounds_def
      using newScale_range [of deltaY "transform st"] wh
      by (simp add: clamp_bounds)
  qed
qed

lemma handleMouseMove_bounds:
  assumes "within_bounds w h (transform st)"
    and "viewport_is w h (MouseMove svg clientX clientY)"
  shows "within_bounds w h (transform (handleMouseMove svg clientX clientY st))"
proof (cases "isPanning st")
  case False
  then show ?thesis using assms(1) by (simp add: handleMouseMove_def)
next
  case True
  show ?thesis
  proof (cases svg)
    case None
    then show ?thesis using assms(1) by (simp add: handleMouseMove_def)
  next
    case (Some r)
    have wh: "rect_width r = w" "rect_height r = h"
      using assms(2) Some by simp_all
    show ?thesis
      using assms(1) True Some wh
      by (simp add: handleMouseMove_def Let_def within_bounds_def clamp_bounds)
  qed
qed

lemma handleEvent_bounds:
  assumes "within_bounds w h (transform st)" and "viewport_is w h e"
  shows "within_bounds w h (transform (handleEvent st e))"
proof (cases e)
  case (Wheel svg deltaY clientX clientY)
  then show ?thesis using assms by (simp add: handleWheel_bounds del: viewport_is.simps)
next
  case (MouseDown clientX clientY)
  then show ?thesis using assms(1) by (simp add: handleMouseDown_def)
next
  case (MouseMove svg clientX clientY)
  then show ?thesis using assms by (simp add: handleMouseMove_bounds del: viewport_is.simps)
next
  case MouseUpOrLeave
  then show ?thesis using assms(1) by (simp add: handleMouseUpOrLeave_def)
next
  case ResetView
  then show ?thesis by (simp add: handleResetView_def within_bounds_def)
qed

lemma runEvents_bounds:
  assumes "within_bounds w h (transform st)" and "\<forall>e \<in> set es. viewport_is w h e"
  shows "within_bounds w h (transform (runEvents es st))"
  using assms unfolding runEvents_def
proof (induction es arbitrary: st)
  case Nil
  then show ?case by simp
next
  case (Cons e es)
  have "within_bounds w h (transform (handleEvent st e))"
    using Cons.prems by (intro handleEvent_bounds) simp_all
  then show ?case
    using Cons.IH Cons.prems(2) by simp
qed

lemma newScale_zoom_in_initial: "newScale (- 100) \<lparr> scale = 1, tx = 0, ty = 0 \<rparr> = 11 / 10"
  by (simp add: newScale_def zoomFactor_def clamp_def MIN_SCALE_def MAX_SCALE_def)


lemma run_zoomInThenDragLeft:
  "runEvents zoomInThenDragLeft initialMapState =
     \<lparr> transform = \<lparr> scale = 11 / 10, tx = - 500, ty = 0 \<rparr>, isPanning = True,
       startPoint = (0, 0) \<rparr>"
  by (simp add: zoomInThenDragLeft_def runEvents_def initialMapState_def handleWheel_def
      newScale_zoom_in_initial Let_def exampleRect_def clamp_def handleMouseDown_def
      handleMouseMove_def)

lemma handleEvent_upper_bounds:
  assumes "1 \<le> scale (transform st) \<and> scale (transform st) \<le> 5
      \<and> tx (transform st) \<le> 0 \<and> ty (transform st) \<le> 0"
  shows "1 \<le> scale (transform (handleEvent st e)) \<and> scale (transform (handleEvent st e)) \<le> 5
      \<and> tx (transform (handleEvent st e)) \<le> 0 \<and> ty (transform (handleEvent st e)) \<le> 0"
proof (cases e)
  case (Wheel svg deltaY clientX clientY)
  show ?thesis
  proof (cases svg)
    case None
    then show ?thesis using assms Wheel by (simp add: handleWheel_def)
  next
    case (Some r)
    show ?thesis
    proof (cases "newScale deltaY (transform st) = scale (transform st)")
      case True
      then show ?thesis using assms Wheel by (simp add: handleWheel_unchanged)
    next
      case False
      show ?thesis
        unfolding Wheel Some handleEvent.simps transform_handleWheel [OF False]
        using newScale_range [of deltaY "transform st"]
        by (simp add: clamp_bounds)
    qed
  qed
next
  case (MouseDown clientX clientY)
  then show ?thesis using assms by (simp add: handleMouseDown_def)
next
  case (MouseMove svg clientX clientY)
  then show ?thesis
    using assms
    by (cases svg) (simp_all add: handleMouseMove_def Let_def clamp_bounds)
next
  case MouseUpOrLeave
  then show ?thesis using assms by (simp add: handleMouseUpOrLeave_def)
next
  case ResetView
  then show ?thesis by (simp add: handleResetView_def)
qed

lemma runEvents_upper_bounds:
  assumes "1 \<le> scale (transform st) \<and> scale (transform st) \<le> 5
      \<and> tx (transform st) \<le> 0 \<and> ty (transform st) \<le> 0"
  shows "1 \<le> scale (transform (runEvents es st)) \<and> scale (transform (runEvents es st)) \<le> 5
      \<and> tx (transform (runEvents es st)) \<le> 0 \<and> ty (transform (runEvents es st)) \<le> 0"
  using assms unfolding runEvents_def
proof (induction es arbitrary: st)
  case Nil
  then show ?case by simp
next
  case (Cons e es)
  show ?case
    using Cons.IH [OF handleEvent_upper_bounds [OF Cons.prems, of e]] by simp
qed

text \<open>
  C3, as the code has it: after any finite run of events on the map (wheel, pointer down,
  move, up or leave, reset) the scale lies between 1 and 5 and the translation on each
  axis is at most 0; when every event of the run sees the same viewport size, the
  translation on each axis is also at least \<open>min(0, viewport size - content size * scale)\<close>,
  the content size being 1000 horizontally and 500 vertically. The bounds are those of
  the viewport the handlers have seen: in the counterexample the viewport is widened from
  600 to 900 after the map was dragged to its right edge at scale 1.1, and the next event,
  a pointer move after the button was released, changes nothing, so that the translation
  -500 stays below the lower bound -200 of the new viewport.
\<close>

theorem view_transform_within_bounds:
  "1 \<le> scale (transform (runEvents es initialMapState))
   \<and> scale (transform (runEvents es initialMapState)) \<le> 5
   \<and> tx (transform (runEvents es initialMapState)) \<le> 0
   \<and> ty (transform (runEvents es initialMapState)) \<le> 0
   \<and> (list_all (viewport_is w h) es \<longrightarrow>
         min 0 (w - 1000 * scale (transform (runEvents es initialMapState)))
           \<le> tx (transform (runEvents es initialMapState))
       \<and> min 0 (h - 500 * scale (transform (runEvents es initialMapState)))
           \<le> ty (transform (runEvents es initialMapState)))"
proof -
  have "1 \<le> scale (transform initialMapState) \<and> scale (transform initialMapState) \<le> 5
      \<and> tx (transform initialMapState) \<le> 0 \<and> ty (transform initialMapState) \<le> 0"
    by (simp add: initialMapState_def)
  then have upper: "1 \<le> scale (transform (runEvents es initialMapState))
      \<and> scale (transform (runEvents es initialMapState)) \<le> 5
      \<and> tx (transform (runEvents es initialMapState)) \<le> 0
      \<and> ty (transform (runEvents es initialMapState)) \<le> 0"
    by (rule runEvents_upper_bounds)
  have lower: "min 0 (w - 1000 * scale (transform (runEvents es initialMapState)))
           \<le> tx (transform (runEvents es initialMapState))
       \<and> min 0 (h - 500 * scale (transform (runEvents es initialMapState)))
           \<le> ty (transform (runEvents es initialMapState))"
    if "list_all (viewport_is w h) es"
  proof -
    have "within_bounds w h (transform initialMapState)"
      by (simp add: initialMapState_def within_bounds_def)
    moreover have "\<forall>e \<in> set es. viewport_is w h e"
      using that by (simp add: list_all_iff)
    ultimately have "within_bounds w h (transform (runEvents es initialMapState))"
      by (rule runEvents_bounds)
    then show ?thesis
      by (simp add: within_bounds_def)
  qed
  show ?thesis
    using upper lower by blast
qed

theorem view_transform_within_bounds_witness:
  "list_all (viewport_is 600 300) zoomInThenDragLeft
   \<and> 1 \<le> scale (transform (runEvents zoomInThenDragLeft initialMapState))
   \<and> scale (transform (runEvents zoomInThenDragLeft initialMapState)) \<le> 5
   \<and> min 0 (600 - 1000 * scale (transform (runEvents zoomInThenDragLeft initialMapState)))
       \<le> tx (transform (runEvents zoomInThenDragLeft initialMapState))
   \<and> tx (transform (runEvents zoomInThenDragLeft initialMapState)) \<le> 0
   \<and> min 0 (300 - 500 * scale (transform (runEvents zoomInThenDragLeft initialMapState)))
       \<le> ty (transform (runEvents zoomInThenDragLeft initialMapState))
   \<and> ty (transform (runEvents zoomInThenDragLeft initialMapState)) \<le> 0
   \<and> tx (transform (runEvents zoomInThenDragLeft initialMapState)) = - 500"
proof -
  have v: "list_all (viewport_is 600 300) zoomInThenDragLeft"
    by (simp add: zoomInThenDragLeft_def exampleRect_def)
  have "tx (transform (runEvents zoomInThenDragLeft initialMapState)) = - 500"
    by (simp add: run_zoomInThenDragLeft)
  then show ?thesis
    using v view_transform_within_bounds [of zoomInThenDragLeft 600 300] by blast
qed

theorem view_bounds_resize_counterexample:
  "rect_width resizedViewport = 900
   \<and> scale (transform (runEvents
          (zoomInThenDragLeft @ [MouseUpOrLeave, MouseMove (Some resizedViewport) 0 0])
          initialMapState)) = 11 / 10
   \<and> tx (transform (runEvents
          (zoomInThenDragLeft @ [MouseUpOrLeave, MouseMove (Some resizedViewport) 0 0])
          initialMapState)) = - 500
   \<and> \<not> min 0 (rect_width resizedViewport - 1000 * scale (transform (runEvents
          (zoomInThenDragLeft @ [MouseUpOrLeave, MouseMove (Some resizedViewport) 0 0])
          initialMapState)))
      \<le> tx (transform (runEvents
          (zoomInThenDragLeft @ [MouseUpOrLeave, MouseMove (Some resizedViewport) 0 0])
          initialMapState))"
proof -
  have "runEvents (zoomInThenDragLeft @ [MouseUpOrLeave, MouseMove (Some resizedViewport) 0 0])
      initialMapState
    = handleMouseMove (Some resizedViewport) 0 0
        (handleMouseUpOrLeave (runEvents zoomInThenDragLeft initialMapState))"
    by (simp add: runEvents_def)
  then show ?thesis
    by (simp add: run_zoomInThenDragLeft handleMouseUpOrLeave_def handleMouseMove_def
        resizedViewport_def)
qed




text \<open>
  C10: when the clamped new scale of a wheel event equals the current scale (zooming in at
  scale 5, zooming out at scale 1), \<open>handleWheel\<close> leaves the whole state, and so the
  scale and both translations, unchanged.
\<close>

theorem wheel_without_scale_change_is_noop:
  "(newScale deltaY (transform st) = scale (transform st)
      \<longrightarrow> handleWheel svg deltaY clientX clientY st = st)
   \<and> (scale (transform st) = 5 \<and> deltaY < 0
      \<longrightarrow> handleWheel svg deltaY clientX clientY st = st)
   \<and> (scale (transform st) = 1 \<and> \<not> deltaY < 0
      \<longrightarrow> handleWheel svg deltaY clientX clientY st = st)"
proof -
  have "newScale deltaY (transform st) = scale (transform st)"
    if "scale (transform st) = 5 \<and> deltaY < 0"
    using that by (simp add: newScale_def zoomFactor_def clamp_def MIN_SCALE_def MAX_SCALE_def)
  moreover have "newScale deltaY (transform st) = scale (transform st)"
    if "scale (transform st) = 1 \<and> \<not> deltaY < 0"
    using that by (simp add: newScale_def zoomFactor_def clamp_def MIN_SCALE_def MAX_SCALE_def)
  ultimately show ?thesis
    using handleWheel_unchanged by blast
qed

theorem wheel_without_scale_change_is_noop_witness:
  "newScale (- 100) (transform zoomedToMax) = scale (transform zoomedToMax)
   \<and> scale (transform zoomedToMax) = 5
   \<and> handleWheel (Some exampleRect) (- 100) 300 150 zoomedToMax = zoomedToMax
   \<and> scale (transform initialMapState) = 1
   \<and> handleWheel (Some exampleRect) 100 300 150 initialMapState = initialMapState"
proof -
  have a: "newScale (- 100) (transform zoomedToMax) = scale (transform zoomedToMax)"
    by (simp add: zoomedToMax_def newScale_def zoomFactor_def clamp_def MIN_SCALE_def
        MAX_SCALE_def)
  have b: "scale (transform zoomedToMax) = 5"
    by (simp add: zoomedToMax_def)
  have c: "scale (transform initialMapState) = 1 \<and> \<not> (100::real) < 0"
    by (simp add: initialMapState_def)
  show ?thesis
    using a b c
      wheel_without_scale_change_is_noop [of "- 100" zoomedToMax "Some exampleRect" 300 150]
      wheel_without_scale_change_is_noop [of 100 initialMapState "Some exampleRect" 300 150]
    by blast
qed

section \<open>Properties of the tide alerts\<close>

text \<open>
  C7: the alert-triggered flag of a city is true exactly when the city has an alert
  configuration that is enabled and the height of the tide record is greater than or equal
  to the configured level; when the configuration is disabled the flag is false whatever
  the height.
\<close>

theorem alert_triggered_iff:
  "(isAlertTriggered cfgs data = Some True
      \<longleftrightarrow> (\<exists>cfg h l. cfgs (city data) = Some cfg \<and> enabled cfg
             \<and> height data = Num h \<and> level cfg = Num l \<and> l \<le> h))
   \<and> (cfgs (city data) = Some cfg \<and> \<not> enabled cfg
        \<longrightarrow> isAlertTriggered cfgs data = Some False)"
proof -
  have ge: "js_ge a b \<longleftrightarrow> (\<exists>h l. a = Num h \<and> b = Num l \<and> l \<le> h)" for a b
    by (cases a; cases b) simp_all
  show ?thesis
    by (auto simp: isAlertTriggered_def ge split: option.splits)
qed

theorem alert_triggered_iff_witness:
  "isAlertTriggered (exampleAlerts True)
      (generateTideDataForDate (exactMath (\<lambda>i. 0)) (js_str ''Jakarta'') (LocalDate 2026 10 3))
     = Some True
   \<and> isAlertTriggered (exampleAlerts False)
      (generateTideDataForDate (exactMath (\<lambda>i. 0)) (js_str ''Jakarta'') (LocalDate 2026 10 3))
     = Some False"
proof -
  let ?d = "generateTideDataForDate (exactMath (\<lambda>i. 0)) (js_str ''Jakarta'') (LocalDate 2026 10 3)"
  have s: "tideSeed (js_str ''Jakarta'') (LocalDate 2026 10 3) = Num 484"
    by (simp add: tideSeed_def js_str_def charCodeAt_def)
  have h: "height ?d = Num 1"
    by (simp add: generateTideDataForDate_def s Let_def toFixed1_def)
  have c: "city ?d = js_str ''Jakarta''"
    by (simp add: generateTideDataForDate_def Let_def)
  have "\<exists>cfg h l. exampleAlerts True (city ?d) = Some cfg \<and> enabled cfg
             \<and> height ?d = Num h \<and> level cfg = Num l \<and> l \<le> h"
    by (simp add: h c exampleAlerts_def)
  moreover have "exampleAlerts False (city ?d) = Some \<lparr> enabled = False, level = Num 1 \<rparr>
      \<and> \<not> enabled \<lparr> enabled = False, level = Num 1 \<rparr>"
    by (simp add: c exampleAlerts_def)
  ultimately show ?thesis
    using alert_triggered_iff [of "exampleAlerts True" ?d]
      alert_triggered_iff [of "exampleAlerts False" ?d "\<lparr> enabled = False, level = Num 1 \<rparr>"]
    by blast
qed

text \<open>
  C9, as the code has it: when the stored text is not empty and \<open>JSON.parse\<close> rejects it,
  the failure is logged, the alerts stay as they were (the empty configuration after
  mounting) and no exception leaves the effect. The empty text, which \<open>JSON.parse\<close> rejects
  as well, never reaches the parser: the guard \<open>if (storedAlerts)\<close> skips it, the alerts
  stay as they were and nothing is logged.
\<close>

theorem unparseable_alerts_logged_unless_empty:
  "(localStorage ''tideAlerts'' = Some s \<and> s \<noteq> [] \<and> JSON_parse grammar s = Inl e
      \<longrightarrow> loadAlerts grammar localStorage st =
            Inr (st\<lparr> console := console st @ [''Failed to parse tide alerts from localStorage''] \<rparr>))
   \<and> (localStorage ''tideAlerts'' = Some [] \<longrightarrow> loadAlerts grammar localStorage st = Inr st)
   \<and> (\<exists>st'. loadAlerts grammar localStorage st = Inr st')"
  by (auto simp: loadAlerts_def loadAlerts_try_def split: option.splits sum.splits)

theorem unparseable_alerts_logged_unless_empty_witness:
  "JSON_parse onlyEmptyObject ''{oops'' = Inl SyntaxError
   \<and> loadAlerts onlyEmptyObject [''tideAlerts'' \<mapsto> ''{oops''] initialTidesState =
       Inr \<lparr> alerts = Map.empty, console = [''Failed to parse tide alerts from localStorage''] \<rparr>
   \<and> loadAlerts onlyEmptyObject [''tideAlerts'' \<mapsto> ''''] initialTidesState = Inr initialTidesState"
proof -
  have p: "JSON_parse onlyEmptyObject ''{oops'' = Inl SyntaxError"
    by (simp add: JSON_parse_def onlyEmptyObject_def)
  show ?thesis
    using p
      unparseable_alerts_logged_unless_empty [of "[''tideAlerts'' \<mapsto> ''{oops'']" "''{oops''"
        onlyEmptyObject SyntaxError initialTidesState]
      unparseable_alerts_logged_unless_empty [of "[''tideAlerts'' \<mapsto> '''']" "''''"
        onlyEmptyObject SyntaxError initialTidesState]
    by (simp add: initialTidesState_def)
qed

theorem unparseable_empty_text_counterexample:
  "JSON_parse onlyEmptyObject '''' = Inl SyntaxError
   \<and> [''tideAlerts'' \<mapsto> ''''] ''tideAlerts'' = Some ''''
   \<and> loadAlerts onlyEmptyObject [''tideAlerts'' \<mapsto> ''''] initialTidesState
       = Inr \<lparr> alerts = Map.empty, console = [] \<rparr>"
  by (simp add: JSON_parse_def loadAlerts_def loadAlerts_try_def initialTidesState_def)

section \<open>Properties of the cache worker\<close>

lemma cache_entry_caches_open:
  "cache_entry (caches_open name caches) n url = cache_entry caches n url"
  by (induction caches) auto

lemma cache_entry_cache_store_open:
  "cache_entry (cache_store name url r (caches_open name caches)) name url = Some r"
  by (induction caches) auto

lemma caches_lookup_caches_open:
  "caches_lookup (caches_open name caches) url = caches_lookup caches url"
  by (induction caches) (auto split: option.splits)

lemma cache_entry_open_and_put:
  "cache_entry (open_and_put name request r caches) name (req_url request)
     = (if put_accepted request r then Some r else cache_entry caches name (req_url request))"
  by (simp add: open_and_put_def cache_entry_cache_store_open cache_entry_caches_open)

text \<open>
  C5, as the code has it: on a fetch, a request with a cache match is answered with the
  cached response and the network is not used. Otherwise the network is tried; its
  response is returned to the caller, and \<open>cache.put\<close> is called with it exactly when its
  status is 200 or its type is opaque. The put writes the response into the cache when the
  cache accepts the pair (an http(s) \<open>GET\<close> request, a response that is not partial and
  has no \<open>Vary: *\<close>) and writes nothing otherwise. When the network fetch rejects, the
  answer is what a second cache lookup finds at that time, which may be nothing. In the
  counterexample the news feed's \<open>POST\<close> is answered with status 200: the response is
  returned and the put is called, but nothing is written.
\<close>

theorem fetch_is_cache_first:
  "(caches_match caches request = Some c
      \<longrightarrow> respondWith (onFetch network caches later request) = Some c
          \<and> effects (onFetch network caches later request) = []
          \<and> caches_after (onFetch network caches later request) = caches)
   \<and> (caches_match caches request = None \<and> network request = Resolved (Some r)
      \<longrightarrow> respondWith (onFetch network caches later request) = Some r
          \<and> NetworkFetch request \<in> set (effects (onFetch network caches later request))
          \<and> (CachePut CACHE_NAME request r \<in> set (effects (onFetch network caches later request))
               \<longleftrightarrow> resp_status r = 200 \<or> resp_type r = opaque)
          \<and> caches_after (onFetch network caches later request)
              = (if resp_status r = 200 \<or> resp_type r = opaque
                 then open_and_put CACHE_NAME request r later else later)
          \<and> cache_entry (caches_after (onFetch network caches later request)) CACHE_NAME
                (req_url request)
              = (if (resp_status r = 200 \<or> resp_type r = opaque) \<and> put_accepted request r
                 then Some r else cache_entry later CACHE_NAME (req_url request)))
   \<and> (caches_match caches request = None \<and> network request = Rejected
      \<longrightarrow> respondWith (onFetch network caches later request) = caches_match later request
          \<and> effects (onFetch network caches later request) = [NetworkFetch request, ConsoleError]
          \<and> caches_after (onFetch network caches later request) = later)"
  by (auto simp: onFetch_def cache_entry_open_and_put)

theorem fetch_is_cache_first_witness:
  "caches_match exampleCaches (getRequest ''https://aqua.example/index.html'') = Some okResponse
   \<and> respondWith (onFetch offline exampleCaches exampleCaches
         (getRequest ''https://aqua.example/index.html'')) = Some okResponse
   \<and> effects (onFetch offline exampleCaches exampleCaches
         (getRequest ''https://aqua.example/index.html'')) = []
   \<and> caches_match exampleCaches (getRequest ''https://aqua.example/App.tsx'') = None
   \<and> respondWith (onFetch exampleNetwork exampleCaches exampleCaches
         (getRequest ''https://aqua.example/App.tsx'')) = Some okResponse
   \<and> cache_entry (caches_after (onFetch exampleNetwork exampleCaches exampleCaches
         (getRequest ''https://aqua.example/App.tsx''))) CACHE_NAME ''https://aqua.example/App.tsx''
       = Some okResponse
   \<and> respondWith (onFetch exampleNetwork exampleCaches exampleCaches
         (getRequest ''https://aqua.example/missing.png'')) = Some notFoundResponse
   \<and> cache_entry (caches_after (onFetch exampleNetwork exampleCaches exampleCaches
         (getRequest ''https://aqua.example/missing.png''))) CACHE_NAME
         ''https://aqua.example/missing.png'' = None
   \<and> respondWith (onFetch offline exampleCaches exampleCaches
         (getRequest ''https://aqua.example/App.tsx'')) = None
   \<and> respondWith (onFetch offline exampleCaches cachesWithApp
         (getRequest ''https://aqua.example/App.tsx'')) = Some okResponse"
proof -
  let ?index = "getRequest ''https://aqua.example/index.html''"
  let ?app = "getRequest ''https://aqua.example/App.tsx''"
  let ?missing = "getRequest ''https://aqua.example/missing.png''"
  have hit: "caches_match exampleCaches ?index = Some okResponse"
    by (simp add: caches_match_def exampleCaches_def getRequest_def)
  have miss: "caches_match exampleCaches ?app = None
      \<and> exampleNetwork ?app = Resolved (Some okResponse)"
    by (simp add: caches_match_def exampleCaches_def exampleNetwork_def getRequest_def)
  have miss404: "caches_match exampleCaches ?missing = None
      \<and> exampleNetwork ?missing = Resolved (Some notFoundResponse)"
    by (simp add: caches_match_def exampleCaches_def exampleNetwork_def getRequest_def
        newsRequest_def)
  have rej: "caches_match exampleCaches ?app = None \<and> offline ?app = Rejected"
    by (simp add: caches_match_def exampleCaches_def offline_def getRequest_def)
  have ok: "resp_status okResponse = 200 \<and> put_accepted ?app okResponse"
    by (simp add: resp_status_def okResponse_def put_accepted_def http_scheme_def getRequest_def)
  have nf: "\<not> (resp_status notFoundResponse = 200 \<or> resp_type notFoundResponse = opaque)"
    by (simp add: resp_status_def notFoundResponse_def)
  have e: "cache_entry exampleCaches CACHE_NAME (req_url ?missing) = None"
    by (simp add: exampleCaches_def getRequest_def)
  have u: "req_url ?app = ''https://aqua.example/App.tsx''"
      "req_url ?missing = ''https://aqua.example/missing.png''"
    by (simp_all add: getRequest_def)
  have later: "caches_match exampleCaches ?app = None"
      "caches_match cachesWithApp ?app = Some okResponse"
    by (simp_all add: caches_match_def exampleCaches_def cachesWithApp_def getRequest_def)
  show ?thesis
    using hit miss miss404 rej ok nf e later
      fetch_is_cache_first [of exampleCaches ?index okResponse offline exampleCaches]
      fetch_is_cache_first [of exampleCaches ?app _ exampleNetwork exampleCaches okResponse]
      fetch_is_cache_first [of exampleCaches ?missing _ exampleNetwork exampleCaches
        notFoundResponse]
      fetch_is_cache_first [of exampleCaches ?app _ offline exampleCaches]
      fetch_is_cache_first [of exampleCaches ?app _ offline cachesWithApp]
    unfolding u by auto
qed

theorem fetch_post_not_cached_counterexample:
  "caches_match exampleCaches newsRequest = None
   \<and> exampleNetwork newsRequest = Resolved (Some newsResponse)
   \<and> resp_status newsResponse = 200
   \<and> respondWith (onFetch exampleNetwork exampleCaches exampleCaches newsRequest)
       = Some newsResponse
   \<and> CachePut CACHE_NAME newsRequest newsResponse
       \<in> set (effects (onFetch exampleNetwork exampleCaches exampleCaches newsRequest))
   \<and> cache_entry (caches_after (onFetch exampleNetwork exampleCaches exampleCaches newsRequest))
         CACHE_NAME (req_url newsRequest) = None
   \<and> caches_match (caches_after (onFetch exampleNetwork exampleCaches exampleCaches newsRequest))
         newsRequest = None"
  by (simp add: onFetch_def caches_match_def exampleNetwork_def newsRequest_def
      newsResponse_def resp_status_def open_and_put_def put_accepted_def exampleCaches_def)

end
